theory Spec2Isabelle
  imports Complex_Main "HOL-Library.AList"
begin

section \<open>The live voice session of LiveSession.tsx\<close>

text \<open>
  The component keeps its state in React state cells and refs and reacts to callbacks
  (\<open>onopen\<close>, \<open>onmessage\<close>, \<open>onclose\<close>, \<open>onerror\<close>, the \<open>ended\<close> listener of a
  playback node, the buttons). Each callback is modelled as a function from the state
  before it to the state after it, one callback at a time. Everything the callbacks ask
  of the outside world (closing a handle, a request to the model API, a tool response,
  starting a playback node) is appended to the \<open>effects\<close> log in program order.

  Objects of the browser (audio contexts, streams, nodes, the session promise) are
  handles. Times of the output clock are values of any linearly ordered type with an
  addition: the theorems on start times use nothing else of the arithmetic.
\<close>

subsection \<open>Data\<close>

type_synonym handle = nat

datatype status = Disconnected | Connecting | Connected | Error

record CodeFile =
  filename :: string
  content :: string
  language :: string

record chat_entry =
  role :: string
  entry_text :: string

datatype 't effect =
    SessionClose handle
  | ProcessorDisconnect handle
  | SourceDisconnect handle
  | TracksStop handle
  | InputContextClose handle
  | OutputContextClose handle
  | CancelAnimationFrame nat
  | SourceStop handle
  | GenerateContent string string
  | SendToolResponse string string string
  | SourceStart handle 't 't

text \<open>
  \<open>GenerateContent model prompt\<close> is the call \<open>ai.models.generateContent\<close> of a tool
  handler; \<open>SendToolResponse name id result\<close> is the tool response handed to the session
  promise (\<open>sessionPromise.then\<close>); \<open>SourceStart node start duration\<close> is
  \<open>source.start(start)\<close> of a node whose buffer lasts \<open>duration\<close>.
\<close>

record 't live =
  isConnected :: bool
  isSpeaking :: bool
  status :: status
  liveImage :: "(string \<times> string) option"
  isProcessingTool :: bool
  toolStatus :: string
  sessionRef :: "handle option"
  audioContextRef :: "handle option"
  inputContextRef :: "handle option"
  streamRef :: "handle option"
  processorRef :: "handle option"
  sourceRef :: "handle option"
  nextStartTimeRef :: 't
  scheduledSources :: "handle list"
  animRef :: nat
  stored_files :: "CodeFile list option"
  stored_chat :: "chat_entry list option"
  fresh_node :: handle
  effects :: "'t effect list"

text \<open>
  \<open>scheduledSources\<close> is the JavaScript \<open>Set\<close> in insertion order; \<open>fresh_node\<close> is the
  identity of the next object that \<open>createBufferSource\<close> returns. \<open>stored_files\<close> and
  \<open>stored_chat\<close> are the two entries of the browser storage under \<open>FILES_KEY\<close> and
  \<open>CHAT_KEY\<close>, \<open>None\<close> while nothing is stored.
\<close>

definition init :: "'t \<Rightarrow> 't live" where
  "init t0 = \<lparr> isConnected = False, isSpeaking = False, status = Disconnected,
     liveImage = None, isProcessingTool = False, toolStatus = [],
     sessionRef = None, audioContextRef = None, inputContextRef = None,
     streamRef = None, processorRef = None, sourceRef = None,
     nextStartTimeRef = t0, scheduledSources = [], animRef = 0,
     stored_files = None, stored_chat = None, fresh_node = 0, effects = [] \<rparr>"

subsection \<open>Teardown\<close>

definition close_session :: "'t live \<Rightarrow> 't live" where
  "close_session s = (case sessionRef s of
       Some p \<Rightarrow> s\<lparr> effects := effects s @ [SessionClose p], sessionRef := None \<rparr>
     | None \<Rightarrow> s)"

definition disconnect_processor :: "'t live \<Rightarrow> 't live" where
  "disconnect_processor s = (case processorRef s of
       Some p \<Rightarrow> s\<lparr> effects := effects s @ [ProcessorDisconnect p], processorRef := None \<rparr>
     | None \<Rightarrow> s)"

definition disconnect_source :: "'t live \<Rightarrow> 't live" where
  "disconnect_source s = (case sourceRef s of
       Some p \<Rightarrow> s\<lparr> effects := effects s @ [SourceDisconnect p], sourceRef := None \<rparr>
     | None \<Rightarrow> s)"

definition stop_tracks :: "'t live \<Rightarrow> 't live" where
  "stop_tracks s = (case streamRef s of
       Some p \<Rightarrow> s\<lparr> effects := effects s @ [TracksStop p], streamRef := None \<rparr>
     | None \<Rightarrow> s)"

definition close_input_context :: "'t live \<Rightarrow> 't live" where
  "close_input_context s = (case inputContextRef s of
       Some p \<Rightarrow> s\<lparr> effects := effects s @ [InputContextClose p], inputContextRef := None \<rparr>
     | None \<Rightarrow> s)"

definition close_audio_context :: "'t live \<Rightarrow> 't live" where
  "close_audio_context s = (case audioContextRef s of
       Some p \<Rightarrow> s\<lparr> effects := effects s @ [OutputContextClose p], audioContextRef := None \<rparr>
     | None \<Rightarrow> s)"

definition cancel_animation :: "'t live \<Rightarrow> 't live" where
  "cancel_animation s =
     (if animRef s \<noteq> 0 then s\<lparr> effects := effects s @ [CancelAnimationFrame (animRef s)] \<rparr>
      else s)"

definition stop_scheduled :: "'t live \<Rightarrow> 't live" where
  "stop_scheduled s =
     s\<lparr> effects := effects s @ map SourceStop (scheduledSources s), scheduledSources := [] \<rparr>"

definition cleanup :: "'t live \<Rightarrow> 't live" where
  "cleanup s =
     (let s1 = close_session s;
          s2 = disconnect_processor s1;
          s3 = disconnect_source s2;
          s4 = stop_tracks s3;
          s5 = close_input_context s4;
          s6 = close_audio_context s5;
          s7 = cancel_animation s6;
          s8 = stop_scheduled s7
      in s8\<lparr> isConnected := False, status := Disconnected, isSpeaking := False,
              liveImage := None, isProcessingTool := False \<rparr>)"

subsection \<open>The outside world\<close>

text \<open>
  The answers of the model API, of \<open>JSON.parse\<close> and of the audio decoder are inputs.
  An \<open>image_response\<close> is either an exception of the request or the list
  \<open>response.candidates?.[0]?.content?.parts\<close> (\<open>None\<close> when the chain is undefined),
  each part with the data of its \<open>inlineData\<close>, if it has one. A \<open>code_response\<close> is
  either an exception or \<open>response.text\<close>. A \<open>json_result\<close> is what \<open>JSON.parse\<close>
  and the reads of \<open>result.files\<close> and \<open>result.explanation\<close> give: an exception, or
  the files (\<open>None\<close> unless the field is an array) and the explanation.
  \<open>decode\<close> is \<open>decodeAudioData(base64ToUint8Array(audioData), ctx, 24000, 1)\<close>:
  the duration of the decoded buffer, or \<open>None\<close> when the call throws.
\<close>

datatype image_response = ImageThrows | ImageParts "string option list option"

datatype code_response = CodeThrows | CodeText "string option"

datatype json_result = JsonThrows | Json "CodeFile list option" "string option"

record 't env =
  image_api :: "string \<Rightarrow> image_response"
  code_api :: "string \<Rightarrow> code_response"
  json_parse :: "string \<Rightarrow> json_result"
  decode :: "string \<Rightarrow> 't option"

subsection \<open>Browser storage\<close>

text \<open>
  Modelled from the spec: \<open>loadFromHistory\<close> and \<open>saveToHistory\<close> of utils/history,
  which is not part of the source: a key-value store read with a default and written
  as a whole ("read list, merge by identifying key with overwrite semantics, write list
  back").
\<close>

definition loadFromHistory :: "'a option \<Rightarrow> 'a \<Rightarrow> 'a" where
  "loadFromHistory stored dflt = (case stored of None \<Rightarrow> dflt | Some v \<Rightarrow> v)"

subsection \<open>Tool handlers\<close>

fun first_inline :: "string option list \<Rightarrow> string" where
  "first_inline [] = []"
| "first_inline (None # parts) = first_inline parts"
| "first_inline (Some d # parts) = ''data:image/png;base64,'' @ d"

definition generateImageFromVoice ::
  "'t env \<Rightarrow> string \<Rightarrow> 't live \<Rightarrow> string \<times> 't live" where
  "generateImageFromVoice e prompt s =
     (let s1 = s\<lparr> toolStatus := ''Generating image...'', isProcessingTool := True \<rparr>;
          s2 = s1\<lparr> effects := effects s1 @ [GenerateContent ''gemini-2.5-flash-image'' prompt] \<rparr>
      in case image_api e prompt of
           ImageThrows \<Rightarrow>
             (''Error occurred while generating image.'', s2\<lparr> isProcessingTool := False \<rparr>)
         | ImageParts parts \<Rightarrow>
             (let imageUrl = (case parts of None \<Rightarrow> [] | Some ps \<Rightarrow> first_inline ps)
              in if imageUrl \<noteq> []
                 then (''Image generated and displayed successfully.'',
                       s2\<lparr> liveImage := Some (imageUrl, prompt), isProcessingTool := False \<rparr>)
                 else (''Failed to generate image.'', s2\<lparr> isProcessingTool := False \<rparr>)))"

fun join :: "string \<Rightarrow> string list \<Rightarrow> string" where
  "join sep [] = []"
| "join sep [x] = x"
| "join sep (x # y # ys) = x @ sep @ join sep (y # ys)"

definition code_prompt :: "string \<Rightarrow> CodeFile list \<Rightarrow> string" where
  "code_prompt description existingFiles =
     ''Create code for: '' @ description @ ''. Generate multiple files if needed. Return JSON.'' @
     (if length existingFiles > 0
      then [CHR 0x0A, CHR 0x0A] @ ''Current File Structure: '' @
           join '', '' (map filename existingFiles) @ ''. '' @ [CHR 0x0A] @
           ''Update or create files as needed.''
      else [])"

text \<open>
  \<open>new Map(entries)\<close> and \<open>Map.set\<close> keep the position of a key that is already there
  and put a new key last, which is \<open>AList.update\<close>.
\<close>

definition map_set_all :: "CodeFile list \<Rightarrow> (string \<times> CodeFile) list \<Rightarrow> (string \<times> CodeFile) list" where
  "map_set_all fs m = fold (\<lambda>f. AList.update (filename f) f) fs m"

definition merge_files :: "CodeFile list \<Rightarrow> CodeFile list \<Rightarrow> CodeFile list" where
  "merge_files existingFiles files =
     (let newFilesMap = map_set_all existingFiles [];
          newFilesMap' = map_set_all files newFilesMap
      in map snd newFilesMap')"

definition generateCodeFromVoice ::
  "'t env \<Rightarrow> string \<Rightarrow> 't live \<Rightarrow> string \<times> 't live" where
  "generateCodeFromVoice e description s =
     (let s1 = s\<lparr> toolStatus := ''Writing code...'', isProcessingTool := True \<rparr>;
          existingFiles = loadFromHistory (stored_files s1) [];
          prompt = code_prompt description existingFiles;
          s2 = s1\<lparr> effects := effects s1 @ [GenerateContent ''gemini-3-flash-preview'' prompt] \<rparr>
      in case code_api e prompt of
           CodeThrows \<Rightarrow>
             (''Error occurred while generating code.'', s2\<lparr> isProcessingTool := False \<rparr>)
         | CodeText jsonStr \<Rightarrow>
             (if jsonStr = None \<or> jsonStr = Some []
              then (''Failed to generate code.'', s2\<lparr> isProcessingTool := False \<rparr>)
              else case json_parse e (the jsonStr) of
                JsonThrows \<Rightarrow>
                  (''Error occurred while generating code.'', s2\<lparr> isProcessingTool := False \<rparr>)
              | Json None explanation \<Rightarrow>
                  (''Code generation failed format check.'', s2\<lparr> isProcessingTool := False \<rparr>)
              | Json (Some files) explanation \<Rightarrow>
                  (let updatedFiles = merge_files existingFiles files;
                       s3 = s2\<lparr> stored_files := Some updatedFiles \<rparr>;
                       existingChat = loadFromHistory (stored_chat s3) [];
                       updatedChat = existingChat @
                         [\<lparr> role = ''user'', entry_text = description \<rparr>,
                          \<lparr> role = ''model'', entry_text =
                               (if explanation = None \<or> explanation = Some []
                                then ''Code generated via Voice Mode.''
                                else the explanation) \<rparr>];
                       s4 = s3\<lparr> stored_chat := Some updatedChat \<rparr>
                   in (''Code generated successfully for '' @ [CHR 0x22] @ description @
                         [CHR 0x22] @ ''. Files saved to Code Studio.'',
                       s4\<lparr> isProcessingTool := False \<rparr>))))"

subsection \<open>Inbound messages\<close>

record functionCall =
  fc_id :: string
  name :: string
  args :: "string \<Rightarrow> string"

record message =
  toolCall :: "functionCall list option"
  audioData :: "string option"
  turnComplete :: bool

text \<open>
  \<open>audioData\<close> is \<open>msg.serverContent?.modelTurn?.parts?.[0]?.inlineData?.data\<close>.
  An \<open>async\<close> callback either returns or throws (its promise rejects).
\<close>

datatype outcome = Returned | Threw

definition tool_call :: "'t env \<Rightarrow> functionCall \<Rightarrow> 't live \<Rightarrow> 't live" where
  "tool_call e fc s =
     (let (result, s') =
            (if name fc = ''generate_image''
             then generateImageFromVoice e (args fc ''prompt'') s
             else if name fc = ''generate_code''
             then generateCodeFromVoice e (args fc ''description'') s
             else (''Tool execution failed'', s))
      in s'\<lparr> effects := effects s' @ [SendToolResponse (name fc) (fc_id fc) result] \<rparr>)"

fun tool_calls :: "'t env \<Rightarrow> functionCall list \<Rightarrow> 't live \<Rightarrow> 't live" where
  "tool_calls e [] s = s"
| "tool_calls e (fc # fcs) s = tool_calls e fcs (tool_call e fc s)"

text \<open>\<open>Set.add\<close>: a new element goes last, an element already in the set stays where it is.\<close>

definition set_add :: "'a \<Rightarrow> 'a list \<Rightarrow> 'a list" where
  "set_add x xs = (if x \<in> set xs then xs else xs @ [x])"

definition play_audio ::
  "('t::{linorder,plus}) env \<Rightarrow> 't \<Rightarrow> string \<Rightarrow> 't live \<Rightarrow> outcome \<times> 't live" where
  "play_audio e currentTime data s =
     (let s1 = s\<lparr> isSpeaking := True \<rparr>;
          s2 = s1\<lparr> nextStartTimeRef := max (nextStartTimeRef s1) currentTime \<rparr>
      in case decode e data of
           None \<Rightarrow> (Threw, s2)
         | Some duration \<Rightarrow>
             (let source = fresh_node s2;
                  s3 = s2\<lparr> fresh_node := Suc source \<rparr>;
                  s4 = s3\<lparr> effects := effects s3 @ [SourceStart source (nextStartTimeRef s3) duration] \<rparr>;
                  s5 = s4\<lparr> nextStartTimeRef := nextStartTimeRef s4 + duration \<rparr>
              in (Returned, s5\<lparr> scheduledSources := set_add source (scheduledSources s5) \<rparr>)))"

definition onmessage ::
  "('t::{linorder,plus}) env \<Rightarrow> 't \<Rightarrow> message \<Rightarrow> 't live \<Rightarrow> outcome \<times> 't live" where
  "onmessage e currentTime msg s =
     (let s1 = (case toolCall msg of None \<Rightarrow> s | Some fcs \<Rightarrow> tool_calls e fcs s);
          (out, s2) =
            (case audioData msg of
               None \<Rightarrow> (Returned, s1)
             | Some data \<Rightarrow>
                 if data \<noteq> [] \<and> audioContextRef s1 \<noteq> None
                 then play_audio e currentTime data s1
                 else (Returned, s1))
      in if out = Threw then (Threw, s2)
         else if turnComplete msg then (Returned, s2\<lparr> isSpeaking := False \<rparr>)
         else (Returned, s2))"

definition source_ended :: "handle \<Rightarrow> 't live \<Rightarrow> 't live" where
  "source_ended source s =
     (let s1 = s\<lparr> scheduledSources := removeAll source (scheduledSources s) \<rparr>
      in if length (scheduledSources s1) = 0 then s1\<lparr> isSpeaking := False \<rparr> else s1)"

subsection \<open>Session callbacks and start\<close>

definition onopen :: "handle \<Rightarrow> handle \<Rightarrow> 't live \<Rightarrow> 't live" where
  "onopen source processor s =
     (let s1 = s\<lparr> status := Connected, isConnected := True \<rparr>
      in if inputContextRef s1 = None then s1
         else s1\<lparr> sourceRef := Some source, processorRef := Some processor \<rparr>)"

definition onclose :: "'t live \<Rightarrow> 't live" where
  "onclose s = cleanup s"

definition onerror :: "'t live \<Rightarrow> 't live" where
  "onerror s = (cleanup s)\<lparr> status := Error \<rparr>"

text \<open>
  What \<open>startSession\<close> acquires: the two audio contexts and the clock of the output
  context, the answer of \<open>getUserMedia\<close> (\<open>None\<close> when it rejects), and the answer of
  the connect call. \<open>ai.live.connect\<close> is not awaited: it either throws at the call or
  returns the promise, and what becomes of the promise later is not looked at by
  \<open>startSession\<close>.
\<close>

datatype promise_fate = Fulfils | Rejects

datatype connect_result = ConnectThrows | ConnectPromise handle promise_fate

record 't acquisition =
  new_audio_context :: handle
  new_input_context :: handle
  currentTime0 :: 't
  getUserMedia :: "handle option"
  connect :: connect_result

definition startSession :: "'t acquisition \<Rightarrow> 't live \<Rightarrow> 't live" where
  "startSession a s =
     (let s1 = s\<lparr> status := Connecting \<rparr>;
          s2 = s1\<lparr> audioContextRef := Some (new_audio_context a),
                   inputContextRef := Some (new_input_context a) \<rparr>;
          s3 = s2\<lparr> nextStartTimeRef := currentTime0 a \<rparr>
      in case getUserMedia a of
           None \<Rightarrow> (cleanup s3)\<lparr> status := Error \<rparr>
         | Some stream \<Rightarrow>
             (let s4 = s3\<lparr> streamRef := Some stream \<rparr>
              in case connect a of
                   ConnectThrows \<Rightarrow> (cleanup s4)\<lparr> status := Error \<rparr>
                 | ConnectPromise sessionPromise fate \<Rightarrow>
                     s4\<lparr> sessionRef := Some sessionPromise \<rparr>))"

subsection \<open>Runs\<close>

datatype 't event =
    Start "'t acquisition"
  | Open handle handle
  | Message 't message
  | Ended handle
  | Close
  | Fail
  | Stop

fun step :: "('t::{linorder,plus}) env \<Rightarrow> 't event \<Rightarrow> 't live \<Rightarrow> 't live" where
  "step e (Start a) s = startSession a s"
| "step e (Open source processor) s = onopen source processor s"
| "step e (Message currentTime msg) s = snd (onmessage e currentTime msg s)"
| "step e (Ended source) s = source_ended source s"
| "step e Close s = onclose s"
| "step e Fail s = onerror s"
| "step e Stop s = cleanup s"

definition run :: "('t::{linorder,plus}) env \<Rightarrow> 't event list \<Rightarrow> 't live \<Rightarrow> 't live" where
  "run e evs s = fold (step e) evs s"

section \<open>Observations on states and logs\<close>

text \<open>
  What the theorems read off a state or off the effect log: the releases a teardown owes
  for the handles a state holds, the playback starts and the tool responses in a log,
  the kind of each effect, the chunk a message offers to the scheduler, and the outcome
  classes of the code handler. None of these is part of the component.
\<close>

definition release_of :: "(handle \<Rightarrow> 't effect) \<Rightarrow> handle option \<Rightarrow> 't effect list" where
  "release_of mk h = (case h of None \<Rightarrow> [] | Some p \<Rightarrow> [mk p])"

definition owned_releases :: "'t live \<Rightarrow> 't effect list" where
  "owned_releases s =
     release_of SessionClose (sessionRef s) @
     release_of ProcessorDisconnect (processorRef s) @
     release_of SourceDisconnect (sourceRef s) @
     release_of TracksStop (streamRef s) @
     release_of InputContextClose (inputContextRef s) @
     release_of OutputContextClose (audioContextRef s) @
     map SourceStop (scheduledSources s)"

fun owned :: "'t effect \<Rightarrow> bool" where
  "owned (SessionClose h) = True"
| "owned (ProcessorDisconnect h) = True"
| "owned (SourceDisconnect h) = True"
| "owned (TracksStop h) = True"
| "owned (InputContextClose h) = True"
| "owned (OutputContextClose h) = True"
| "owned (SourceStop h) = True"
| "owned (CancelAnimationFrame n) = False"
| "owned (GenerateContent m p) = False"
| "owned (SendToolResponse n i r) = False"
| "owned (SourceStart h t d) = False"

definition holds_nothing :: "'t live \<Rightarrow> bool" where
  "holds_nothing s \<longleftrightarrow>
     sessionRef s = None \<and> processorRef s = None \<and> sourceRef s = None \<and>
     streamRef s = None \<and> inputContextRef s = None \<and> audioContextRef s = None \<and>
     scheduledSources s = []"

definition animation_cancel :: "'t live \<Rightarrow> 't effect list" where
  "animation_cancel s = (if animRef s \<noteq> 0 then [CancelAnimationFrame (animRef s)] else [])"

fun starts :: "'t effect list \<Rightarrow> ('t \<times> 't) list" where
  "starts [] = []"
| "starts (SourceStart h t d # es) = (t, d) # starts es"
| "starts (x # es) = starts es"

fun responses :: "'t effect list \<Rightarrow> (string \<times> string \<times> string) list" where
  "responses [] = []"
| "responses (SendToolResponse n i r # es) = (n, i, r) # responses es"
| "responses (x # es) = responses es"

datatype effect_kind = HandlerRequest | ResultSend string | PlaybackStart | Release

fun kind_of :: "'t effect \<Rightarrow> effect_kind" where
  "kind_of (GenerateContent m p) = HandlerRequest"
| "kind_of (SendToolResponse n i r) = ResultSend i"
| "kind_of (SourceStart h t d) = PlaybackStart"
| "kind_of x = Release"

definition call_kinds :: "functionCall \<Rightarrow> effect_kind list" where
  "call_kinds fc =
     (if name fc = ''generate_image'' \<or> name fc = ''generate_code'' then [HandlerRequest] else [])
     @ [ResultSend (fc_id fc)]"

definition same_playback :: "'t live \<Rightarrow> 't live \<Rightarrow> bool" where
  "same_playback s' s \<longleftrightarrow>
     isConnected s' = isConnected s \<and> isSpeaking s' = isSpeaking s \<and> status s' = status s \<and>
     sessionRef s' = sessionRef s \<and> audioContextRef s' = audioContextRef s \<and>
     inputContextRef s' = inputContextRef s \<and> streamRef s' = streamRef s \<and>
     processorRef s' = processorRef s \<and> sourceRef s' = sourceRef s \<and>
     nextStartTimeRef s' = nextStartTimeRef s \<and> scheduledSources s' = scheduledSources s \<and>
     animRef s' = animRef s \<and> fresh_node s' = fresh_node s"

definition chunk :: "message \<Rightarrow> 't live \<Rightarrow> string option" where
  "chunk msg s = (case audioData msg of
       None \<Rightarrow> None
     | Some data \<Rightarrow> if data \<noteq> [] \<and> audioContextRef s \<noteq> None then Some data else None)"

definition after_tools :: "'t env \<Rightarrow> message \<Rightarrow> 't live \<Rightarrow> 't live" where
  "after_tools e msg s = (case toolCall msg of None \<Rightarrow> s | Some fcs \<Rightarrow> tool_calls e fcs s)"





definition keyed :: "CodeFile list \<Rightarrow> (string \<times> CodeFile) list" where
  "keyed fs = map (\<lambda>f. (filename f, f)) fs"


definition at_rest :: "'t live \<Rightarrow> bool" where
  "at_rest s \<longleftrightarrow>
     holds_nothing s \<and> status s = Disconnected \<and> \<not> isConnected s \<and> \<not> isSpeaking s \<and>
     liveImage s = None \<and> \<not> isProcessingTool s"

definition acquired :: "'t acquisition \<Rightarrow> 't live \<Rightarrow> 't live" where
  "acquired a s =
     (let s3 = s\<lparr> status := Connecting,
                  audioContextRef := Some (new_audio_context a),
                  inputContextRef := Some (new_input_context a),
                  nextStartTimeRef := currentTime0 a \<rparr>
      in case getUserMedia a of None \<Rightarrow> s3 | Some stream \<Rightarrow> s3\<lparr> streamRef := Some stream \<rparr>)"

section \<open>Example inputs\<close>

text \<open>
  Concrete inputs at which the theorems are evaluated: an API that draws a cat and
  fails on everything else, a code model that answers with two files, chunks of half
  a second, and a session that has been started and opened.
\<close>

definition index_old :: CodeFile where
  "index_old = \<lparr> filename = ''index.html'', content = ''<p>old</p>'', language = ''html'' \<rparr>"

definition index_new :: CodeFile where
  "index_new = \<lparr> filename = ''index.html'', content = ''<p>new</p>'', language = ''html'' \<rparr>"

definition style_css :: CodeFile where
  "style_css = \<lparr> filename = ''style.css'', content = ''p {}'', language = ''css'' \<rparr>"

definition app_js :: CodeFile where
  "app_js = \<lparr> filename = ''app.js'', content = ''let x'', language = ''javascript'' \<rparr>"

definition example_env :: "real env" where
  "example_env =
     \<lparr> image_api = (\<lambda>p. if p = ''a cat'' then ImageParts (Some [None, Some ''QUJD'']) else ImageThrows),
       code_api = (\<lambda>p. CodeText (Some ''{}'')),
       json_parse = (\<lambda>j. Json (Some [index_new, app_js]) None),
       decode = (\<lambda>d. Some (1 / 2)) \<rparr>"

definition garbled_env :: "real env" where
  "garbled_env = example_env\<lparr> decode := (\<lambda>d. if d = ''!!'' then None else Some (1 / 2)) \<rparr>"

definition failing_env :: "real env" where
  "failing_env = example_env\<lparr> code_api := (\<lambda>p. CodeThrows) \<rparr>"

definition unformatted_env :: "real env" where
  "unformatted_env = example_env\<lparr> json_parse := (\<lambda>j. Json None (Some ''no files'')) \<rparr>"

definition example_start :: "real acquisition" where
  "example_start = \<lparr> new_audio_context = 1, new_input_context = 2, currentTime0 = 0,
     getUserMedia = Some 3, connect = ConnectPromise 4 Fulfils \<rparr>"

definition rejected_start :: "real acquisition" where
  "rejected_start = example_start\<lparr> connect := ConnectPromise 4 Rejects \<rparr>"

definition denied_start :: "real acquisition" where
  "denied_start = example_start\<lparr> getUserMedia := None \<rparr>"

definition idle :: "real live" where
  "idle = init 0"

definition connected :: "real live" where
  "connected = onopen 5 6 (startSession example_start idle)"

definition chunk_msg :: message where
  "chunk_msg = \<lparr> toolCall = None, audioData = Some ''AAAA'', turnComplete = False \<rparr>"

definition garbled_msg :: message where
  "garbled_msg = \<lparr> toolCall = None, audioData = Some ''!!'', turnComplete = False \<rparr>"

definition turn_msg :: message where
  "turn_msg = \<lparr> toolCall = None, audioData = None, turnComplete = True \<rparr>"

definition cat_call :: functionCall where
  "cat_call = \<lparr> fc_id = ''x1'', name = ''generate_image'', args = (\<lambda>k. ''a cat'') \<rparr>"

definition dog_call :: functionCall where
  "dog_call = \<lparr> fc_id = ''x2'', name = ''generate_image'', args = (\<lambda>k. ''a dog'') \<rparr>"

definition video_call :: functionCall where
  "video_call = \<lparr> fc_id = ''x9'', name = ''generate_video'', args = (\<lambda>k. ''a film'') \<rparr>"

definition tools_and_chunk :: message where
  "tools_and_chunk = \<lparr> toolCall = Some [cat_call, dog_call], audioData = Some ''AAAA'',
     turnComplete = False \<rparr>"

definition two_chunks :: "real event list" where
  "two_chunks = [Message 0 chunk_msg, Message 0 chunk_msg]"

definition chunks_then_end :: "real event list" where
  "chunks_then_end = [Message 0 chunk_msg, Message 0 chunk_msg, Ended 0]"

definition turn_then_end :: "real event list" where
  "turn_then_end = [Message 0 chunk_msg, Message 0 chunk_msg, Message 0 turn_msg, Ended 0]"

definition playing :: "real live" where
  "playing = run example_env two_chunks connected"

definition with_files :: "real live" where
  "with_files = idle\<lparr> stored_files := Some [index_old, style_css] \<rparr>"

section \<open>Lemmas\<close>

lemma close_session_eq:
  "close_session s = s\<lparr> effects := effects s @ release_of SessionClose (sessionRef s), sessionRef := None \<rparr>"
  by (cases "sessionRef s") (simp_all add: close_session_def release_of_def)

lemma disconnect_processor_eq:
  "disconnect_processor s = s\<lparr> effects := effects s @ release_of ProcessorDisconnect (processorRef s), processorRef := None \<rparr>"
  by (cases "processorRef s") (simp_all add: disconnect_processor_def release_of_def)

lemma disconnect_source_eq:
  "disconnect_source s = s\<lparr> effects := effects s @ release_of SourceDisconnect (sourceRef s), sourceRef := None \<rparr>"
  by (cases "sourceRef s") (simp_all add: disconnect_source_def release_of_def)

lemma stop_tracks_eq:
  "stop_tracks s = s\<lparr> effects := effects s @ release_of TracksStop (streamRef s), streamRef := None \<rparr>"
  by (cases "streamRef s") (simp_all add: stop_tracks_def release_of_def)

lemma close_input_context_eq:
  "close_input_context s = s\<lparr> effects := effects s @ release_of InputContextClose (inputContextRef s), inputContextRef := None \<rparr>"
  by (cases "inputContextRef s") (simp_all add: close_input_context_def release_of_def)

lemma close_audio_context_eq:
  "close_audio_context s = s\<lparr> effects := effects s @ release_of OutputContextClose (audioContextRef s), audioContextRef := None \<rparr>"
  by (cases "audioContextRef s") (simp_all add: close_audio_context_def release_of_def)

lemma cancel_animation_eq:
  "cancel_animation s = s\<lparr> effects := effects s @ animation_cancel s \<rparr>"
  by (simp add: cancel_animation_def animation_cancel_def)

lemmas release_steps = close_session_eq disconnect_processor_eq disconnect_source_eq
  stop_tracks_eq close_input_context_eq close_audio_context_eq cancel_animation_eq
  stop_scheduled_def

lemma cleanup_eq:
  "cleanup s = s\<lparr> isConnected := False, isSpeaking := False, status := Disconnected,
       liveImage := None, isProcessingTool := False,
       sessionRef := None, audioContextRef := None, inputContextRef := None,
       streamRef := None, processorRef := None, sourceRef := None,
       scheduledSources := [],
       effects := effects s @
         release_of SessionClose (sessionRef s) @
         release_of ProcessorDisconnect (processorRef s) @
         release_of SourceDisconnect (sourceRef s) @
         release_of TracksStop (streamRef s) @
         release_of InputContextClose (inputContextRef s) @
         release_of OutputContextClose (audioContextRef s) @
         animation_cancel s @
         map SourceStop (scheduledSources s) \<rparr>"
  by (simp add: cleanup_def Let_def release_steps animation_cancel_def)

lemma owned_release_of [simp]:
  "filter owned (release_of SessionClose h) = release_of SessionClose h"
  "filter owned (release_of ProcessorDisconnect h) = release_of ProcessorDisconnect h"
  "filter owned (release_of SourceDisconnect h) = release_of SourceDisconnect h"
  "filter owned (release_of TracksStop h) = release_of TracksStop h"
  "filter owned (release_of InputContextClose h) = release_of InputContextClose h"
  "filter owned (release_of OutputContextClose h) = release_of OutputContextClose h"
  by (cases h; simp add: release_of_def)+

lemma owned_animation_cancel [simp]: "filter owned (animation_cancel s) = []"
  by (simp add: animation_cancel_def)

lemma owned_source_stops [simp]: "filter owned (map SourceStop xs) = map SourceStop xs"
  by (induction xs) simp_all

lemma cleanup_owned_effects:
  "filter owned (effects (cleanup s)) = filter owned (effects s) @ owned_releases s"
  by (simp add: cleanup_eq owned_releases_def)

lemma cleanup_holds_nothing: "holds_nothing (cleanup s)"
  by (simp add: cleanup_eq holds_nothing_def)

lemma cleanup_status: "status (cleanup s) = Disconnected"
  by (simp add: cleanup_eq)

lemma holds_nothing_releases: "holds_nothing s \<Longrightarrow> owned_releases s = []"
  by (simp add: holds_nothing_def owned_releases_def release_of_def)

lemma cleanup_again:
  "cleanup ((cleanup s)\<lparr> effects := es \<rparr>) = (cleanup s)\<lparr> effects := es @ animation_cancel s \<rparr>"
  by (simp add: cleanup_eq [of "cleanup s\<lparr>effects := es\<rparr>"])
     (simp add: cleanup_eq release_of_def animation_cancel_def)

lemma cleanup_funpow_owned:
  "filter owned (effects ((cleanup ^^ Suc n) s)) = filter owned (effects s) @ owned_releases s"
proof (induction n)
  case 0
  show ?case by (simp add: cleanup_owned_effects)
next
  case (Suc n)
  have "holds_nothing ((cleanup ^^ Suc n) s)" by (simp add: cleanup_holds_nothing)
  then have "owned_releases ((cleanup ^^ Suc n) s) = []" by (rule holds_nothing_releases)
  moreover have "filter owned (effects ((cleanup ^^ Suc (Suc n)) s))
      = filter owned (effects ((cleanup ^^ Suc n) s)) @ owned_releases ((cleanup ^^ Suc n) s)"
    using cleanup_owned_effects [of "(cleanup ^^ Suc n) s"] by simp
  ultimately show ?case using Suc.IH by simp
qed

lemma cleanup_funpow_shape:
  "\<exists>es. (cleanup ^^ Suc n) s = (cleanup s)\<lparr> effects := es \<rparr>"
proof (induction n)
  case 0
  have "(cleanup ^^ Suc 0) s = (cleanup s)\<lparr> effects := effects (cleanup s) \<rparr>" by simp
  then show ?case by (rule exI)
next
  case (Suc n)
  then obtain es where es: "(cleanup ^^ Suc n) s = (cleanup s)\<lparr> effects := es \<rparr>" by blast
  have "(cleanup ^^ Suc (Suc n)) s = cleanup ((cleanup ^^ Suc n) s)" by simp
  also have "\<dots> = (cleanup s)\<lparr> effects := es @ animation_cancel s \<rparr>"
    by (simp only: es cleanup_again)
  finally show ?case by (rule exI)
qed

lemma cleanup_funpow_state:
  "(cleanup ^^ Suc n) s = (cleanup s)\<lparr> effects := effects ((cleanup ^^ Suc n) s) \<rparr>"
proof -
  obtain es where es: "(cleanup ^^ Suc n) s = (cleanup s)\<lparr> effects := es \<rparr>"
    using cleanup_funpow_shape by blast
  have "(cleanup s)\<lparr> effects := es \<rparr> =
      (cleanup s)\<lparr> effects := effects ((cleanup s)\<lparr> effects := es \<rparr>) \<rparr>"
    by simp
  then show ?thesis unfolding es .
qed

lemma distinct_owned_releases:
  "distinct (scheduledSources s) \<Longrightarrow> distinct (owned_releases s)"
  by (auto simp: owned_releases_def release_of_def distinct_map inj_on_def split: option.splits)

lemma starts_append: "starts (xs @ ys) = starts xs @ starts ys"
  by (induction xs rule: starts.induct) simp_all

lemma responses_append: "responses (xs @ ys) = responses xs @ responses ys"
  by (induction xs rule: responses.induct) simp_all

lemma generateImage_effects:
  "effects (snd (generateImageFromVoice e p s)) = effects s @ [GenerateContent ''gemini-2.5-flash-image'' p]"
  by (simp add: generateImageFromVoice_def Let_def split: image_response.splits)

lemma generateCode_effects:
  "effects (snd (generateCodeFromVoice e d s)) =
     effects s @ [GenerateContent ''gemini-3-flash-preview'' (code_prompt d (loadFromHistory (stored_files s) []))]"
  by (simp add: generateCodeFromVoice_def Let_def
      split: code_response.splits json_result.splits option.splits)

lemma generateImage_frame: "same_playback (snd (generateImageFromVoice e p s)) s"
  by (simp add: generateImageFromVoice_def same_playback_def Let_def split: image_response.splits)

lemma generateCode_frame: "same_playback (snd (generateCodeFromVoice e d s)) s"
  by (simp add: generateCodeFromVoice_def same_playback_def Let_def
      split: code_response.splits json_result.splits option.splits)

lemma same_playback_refl: "same_playback s s"
  by (simp add: same_playback_def)

lemma same_playback_trans: "same_playback s'' s' \<Longrightarrow> same_playback s' s \<Longrightarrow> same_playback s'' s"
  by (simp add: same_playback_def)

lemma same_playback_effects: "same_playback (s\<lparr> effects := es \<rparr>) s"
  by (simp add: same_playback_def)

lemma tool_call_frame: "same_playback (tool_call e fc s) s"
proof -
  have a: "same_playback (snd (generateImageFromVoice e (args fc ''prompt'') s)) s"
    by (rule generateImage_frame)
  have b: "same_playback (snd (generateCodeFromVoice e (args fc ''description'') s)) s"
    by (rule generateCode_frame)
  show ?thesis
    using a b by (simp add: tool_call_def same_playback_def split_beta)
qed

lemma tool_calls_frame: "same_playback (tool_calls e fcs s) s"
proof (induction fcs arbitrary: s)
  case Nil
  show ?case by (simp add: same_playback_refl)
next
  case (Cons fc fcs)
  show ?case
    using Cons.IH [of "tool_call e fc s"] tool_call_frame [of e fc s]
    by (simp add: same_playback_trans)
qed

lemma tool_call_effects:
  "\<exists>new r. effects (tool_call e fc s) = effects s @ new \<and> starts new = [] \<and>
      responses new = [(name fc, fc_id fc, r)] \<and> map kind_of new = call_kinds fc \<and>
      filter owned new = []"
proof -
  consider (img) "name fc = ''generate_image''"
    | (code) "name fc \<noteq> ''generate_image''" "name fc = ''generate_code''"
    | (other) "name fc \<noteq> ''generate_image''" "name fc \<noteq> ''generate_code''"
    by blast
  then show ?thesis
  proof cases
    case img
    then show ?thesis
      by (simp add: tool_call_def split_beta generateImage_effects call_kinds_def)
  next
    case code
    then show ?thesis
      by (simp add: tool_call_def split_beta generateCode_effects call_kinds_def)
  next
    case other
    then show ?thesis
      by (simp add: tool_call_def call_kinds_def)
  qed
qed

lemma tool_calls_effects:
  "\<exists>new rs. effects (tool_calls e fcs s) = effects s @ new \<and> starts new = [] \<and>
      length rs = length fcs \<and>
      responses new = map2 (\<lambda>fc r. (name fc, fc_id fc, r)) fcs rs \<and>
      map kind_of new = concat (map call_kinds fcs) \<and> filter owned new = []"
proof (induction fcs arbitrary: s)
  case Nil
  show ?case by simp
next
  case (Cons fc fcs)
  obtain n1 r where 1: "effects (tool_call e fc s) = effects s @ n1" "starts n1 = []"
      "responses n1 = [(name fc, fc_id fc, r)]" "map kind_of n1 = call_kinds fc"
      "filter owned n1 = []"
    using tool_call_effects [of e fc s] by blast
  obtain n2 rs where 2: "effects (tool_calls e fcs (tool_call e fc s)) = effects (tool_call e fc s) @ n2"
      "starts n2 = []" "length rs = length fcs"
      "responses n2 = map2 (\<lambda>fc r. (name fc, fc_id fc, r)) fcs rs"
      "map kind_of n2 = concat (map call_kinds fcs)" "filter owned n2 = []"
    using Cons.IH [of "tool_call e fc s"] by blast
  have "effects (tool_calls e (fc # fcs) s) = effects s @ (n1 @ n2)"
    using 1(1) 2(1) by simp
  moreover have "starts (n1 @ n2) = []" using 1(2) 2(2) by (simp add: starts_append)
  moreover have "length (r # rs) = length (fc # fcs)" using 2(3) by simp
  moreover have "responses (n1 @ n2) = map2 (\<lambda>fc r. (name fc, fc_id fc, r)) (fc # fcs) (r # rs)"
    using 1(3) 2(4) by (simp add: responses_append)
  moreover have "map kind_of (n1 @ n2) = concat (map call_kinds (fc # fcs))"
    using 1(4) 2(5) by simp
  moreover have "filter owned (n1 @ n2) = []" using 1(5) 2(6) by simp
  ultimately show ?case by blast
qed

lemma after_tools_frame: "same_playback (after_tools e msg s) s"
  by (simp add: after_tools_def same_playback_refl tool_calls_frame split: option.splits)

lemma after_tools_same:
  "isConnected (after_tools e msg s) = isConnected s"
  "isSpeaking (after_tools e msg s) = isSpeaking s"
  "status (after_tools e msg s) = status s"
  "sessionRef (after_tools e msg s) = sessionRef s"
  "audioContextRef (after_tools e msg s) = audioContextRef s"
  "inputContextRef (after_tools e msg s) = inputContextRef s"
  "streamRef (after_tools e msg s) = streamRef s"
  "processorRef (after_tools e msg s) = processorRef s"
  "sourceRef (after_tools e msg s) = sourceRef s"
  "nextStartTimeRef (after_tools e msg s) = nextStartTimeRef s"
  "scheduledSources (after_tools e msg s) = scheduledSources s"
  "animRef (after_tools e msg s) = animRef s"
  "fresh_node (after_tools e msg s) = fresh_node s"
  using after_tools_frame [of e msg s] by (simp_all add: same_playback_def)

lemma onmessage_alt:
  "onmessage e t msg s =
     (let s1 = after_tools e msg s;
          (out, s2) = (case chunk msg s of None \<Rightarrow> (Returned, s1)
                       | Some data \<Rightarrow> play_audio e t data s1)
      in if out = Threw then (Threw, s2)
         else if turnComplete msg then (Returned, s2\<lparr> isSpeaking := False \<rparr>)
         else (Returned, s2))"
proof -
  have "(case audioData msg of None \<Rightarrow> (Returned, after_tools e msg s)
         | Some data \<Rightarrow> if data \<noteq> [] \<and> audioContextRef (after_tools e msg s) \<noteq> None
             then play_audio e t data (after_tools e msg s) else (Returned, after_tools e msg s))
      = (case chunk msg s of None \<Rightarrow> (Returned, after_tools e msg s)
         | Some data \<Rightarrow> play_audio e t data (after_tools e msg s))"
    by (cases "audioData msg") (simp_all add: chunk_def after_tools_same)
  then show ?thesis
    unfolding onmessage_def after_tools_def [symmetric] Let_def by simp
qed

lemma onmessage_no_chunk:
  "chunk msg s = None \<Longrightarrow>
   onmessage e t msg s =
     (Returned, if turnComplete msg then (after_tools e msg s)\<lparr> isSpeaking := False \<rparr>
                else after_tools e msg s)"
  by (simp add: onmessage_alt)

lemma onmessage_decode_fails:
  "chunk msg s = Some data \<Longrightarrow> decode e data = None \<Longrightarrow>
   onmessage e t msg s =
     (Threw, (after_tools e msg s)\<lparr> isSpeaking := True,
        nextStartTimeRef := max (nextStartTimeRef s) t \<rparr>)"
  by (simp add: onmessage_alt play_audio_def after_tools_same)

lemma onmessage_scheduled:
  "chunk msg s = Some data \<Longrightarrow> decode e data = Some d \<Longrightarrow>
   onmessage e t msg s =
     (Returned, (after_tools e msg s)\<lparr>
        isSpeaking := \<not> turnComplete msg,
        nextStartTimeRef := max (nextStartTimeRef s) t + d,
        fresh_node := Suc (fresh_node s),
        scheduledSources := set_add (fresh_node s) (scheduledSources s),
        effects := effects (after_tools e msg s) @ [SourceStart (fresh_node s) (max (nextStartTimeRef s) t) d] \<rparr>)"
  by (simp add: onmessage_alt play_audio_def after_tools_same Let_def)

lemma after_tools_effects:
  "\<exists>new rs. effects (after_tools e msg s) = effects s @ new \<and> starts new = [] \<and>
      length rs = length (case toolCall msg of None \<Rightarrow> [] | Some fcs \<Rightarrow> fcs) \<and>
      responses new = map2 (\<lambda>fc r. (name fc, fc_id fc, r)) (case toolCall msg of None \<Rightarrow> [] | Some fcs \<Rightarrow> fcs) rs \<and>
      map kind_of new = concat (map call_kinds (case toolCall msg of None \<Rightarrow> [] | Some fcs \<Rightarrow> fcs)) \<and>
      filter owned new = []"
proof (cases "toolCall msg")
  case None
  then show ?thesis by (simp add: after_tools_def)
next
  case (Some fcs)
  then show ?thesis using tool_calls_effects [of e fcs s] by (simp add: after_tools_def)
qed




lemma starts_release_of [simp]:
  "starts (release_of SessionClose h) = []"
  "starts (release_of ProcessorDisconnect h) = []"
  "starts (release_of SourceDisconnect h) = []"
  "starts (release_of TracksStop h) = []"
  "starts (release_of InputContextClose h) = []"
  "starts (release_of OutputContextClose h) = []"
  by (cases h; simp add: release_of_def)+

lemma starts_source_stops [simp]: "starts (map SourceStop xs) = []"
  by (induction xs) simp_all

lemma starts_animation_cancel [simp]: "starts (animation_cancel s) = []"
  by (simp add: animation_cancel_def)



lemma onmessage_starts:
  "starts (effects (snd (onmessage e t msg s))) =
     starts (effects s) @
     (case chunk msg s of None \<Rightarrow> []
      | Some data \<Rightarrow> (case decode e data of None \<Rightarrow> []
          | Some d \<Rightarrow> [(max (nextStartTimeRef s) t, d)]))"
proof -
  obtain new where new: "effects (after_tools e msg s) = effects s @ new" "starts new = []"
    using after_tools_effects [of e msg s] by blast
  show ?thesis
  proof (cases "chunk msg s")
    case None
    then show ?thesis using new by (simp add: onmessage_no_chunk starts_append)
  next
    case (Some data)
    show ?thesis
    proof (cases "decode e data")
      case None
      then show ?thesis using Some new by (simp add: onmessage_decode_fails starts_append)
    next
      case (Some d)
      then show ?thesis using \<open>chunk msg s = Some data\<close> new
        by (simp add: onmessage_scheduled starts_append)
    qed
  qed
qed





lemma chunk_same_context: "audioContextRef s' = audioContextRef s \<Longrightarrow> chunk msg s' = chunk msg s"
  by (simp add: chunk_def split: option.splits)















lemma cleanup_at_rest:
  "at_rest s \<Longrightarrow> cleanup s = s\<lparr> effects := effects s @ animation_cancel s \<rparr>"
  by (simp add: at_rest_def holds_nothing_def cleanup_eq release_of_def)

lemma startSession_fails:
  assumes "getUserMedia a = None \<or> connect a = ConnectThrows"
  shows "startSession a s = (cleanup (acquired a s))\<lparr> status := Error \<rparr>"
proof (cases "getUserMedia a")
  case None
  then show ?thesis by (simp add: startSession_def acquired_def Let_def)
next
  case (Some stream)
  then have "connect a = ConnectThrows" using assms by simp
  then show ?thesis using Some by (simp add: startSession_def acquired_def Let_def)
qed

lemma acquired_effects: "effects (acquired a s) = effects s"
  by (simp add: acquired_def Let_def split: option.splits)

lemma update_set_subset: "set (AList.update k v al) \<subseteq> insert (k, v) (set al)"
  by (induction al) auto

lemma map_set_all_Cons:
  "map_set_all (f # fs) m = map_set_all fs (AList.update (filename f) f m)"
  by (simp add: map_set_all_def)

lemma map_set_all_map_of: "map_of (map_set_all fs m) = map_of (rev (keyed fs) @ m)"
proof (induction fs arbitrary: m)
  case Nil
  show ?case by (simp add: map_set_all_def keyed_def)
next
  case (Cons f fs)
  have "map_of (map_set_all (f # fs) m) = map_of (rev (keyed fs) @ AList.update (filename f) f m)"
    using Cons.IH [of "AList.update (filename f) f m"] by (simp add: map_set_all_Cons)
  also have "\<dots> = map_of (AList.update (filename f) f m) ++ map_of (rev (keyed fs))" by simp
  also have "\<dots> = map_of ((filename f, f) # m) ++ map_of (rev (keyed fs))"
    by (simp add: update_conv')
  also have "\<dots> = map_of (rev (keyed (f # fs)) @ m)" by (simp add: keyed_def)
  finally show ?case .
qed

lemma map_set_all_distinct:
  "distinct (map fst m) \<Longrightarrow> distinct (map fst (map_set_all fs m))"
proof (induction fs arbitrary: m)
  case Nil
  then show ?case by (simp add: map_set_all_def)
next
  case (Cons f fs)
  then show ?case by (simp add: map_set_all_Cons distinct_update)
qed

lemma map_set_all_keyed:
  "\<forall>p \<in> set m. filename (snd p) = fst p \<Longrightarrow> \<forall>p \<in> set (map_set_all fs m). filename (snd p) = fst p"
proof (induction fs arbitrary: m)
  case Nil
  then show ?case by (simp add: map_set_all_def)
next
  case (Cons f fs)
  have "\<forall>p \<in> set (AList.update (filename f) f m). filename (snd p) = fst p"
    using Cons.prems update_set_subset [of "filename f" f m] by auto
  then show ?case using Cons.IH by (simp add: map_set_all_Cons)
qed

lemma keyed_snd: "\<forall>p \<in> set m. filename (snd p) = fst p \<Longrightarrow> keyed (map snd m) = m"
  by (induction m) (auto simp: keyed_def)

lemma merge_files_keyed:
  "keyed (merge_files existing files) = map_set_all files (map_set_all existing [])"
proof -
  have "\<forall>p \<in> set (map_set_all existing []). filename (snd p) = fst p"
    by (rule map_set_all_keyed) simp
  then have "\<forall>p \<in> set (map_set_all files (map_set_all existing [])). filename (snd p) = fst p"
    by (rule map_set_all_keyed)
  then show ?thesis by (simp add: merge_files_def keyed_snd)
qed

lemma map_fst_keyed: "map fst (keyed fs) = map filename fs"
  by (simp add: keyed_def comp_def)

lemma merge_files_distinct: "distinct (map filename (merge_files existing files))"
proof -
  have "distinct (map fst (map_set_all files (map_set_all existing [])))"
    by (intro map_set_all_distinct) simp
  then show ?thesis
    using merge_files_keyed [of existing files] map_fst_keyed [of "merge_files existing files"]
    by simp
qed

lemma keyed_append: "keyed (xs @ ys) = keyed xs @ keyed ys"
  by (simp add: keyed_def)

lemma merge_files_map_of:
  "map_of (keyed (merge_files existing files)) = map_of (rev (keyed (existing @ files)))"
proof -
  have "map_of (keyed (merge_files existing files)) =
        map_of (rev (keyed files) @ map_set_all existing [])"
    by (simp only: merge_files_keyed map_set_all_map_of)
  also have "\<dots> = map_of (map_set_all existing []) ++ map_of (rev (keyed files))"
    by (rule map_of_append)
  also have "\<dots> = map_of (rev (keyed existing)) ++ map_of (rev (keyed files))"
    by (simp add: map_set_all_map_of)
  also have "\<dots> = map_of (rev (keyed files) @ rev (keyed existing))"
    by (rule map_of_append [symmetric])
  finally show ?thesis by (simp add: keyed_append)
qed

lemma merge_files_keeps_new:
  assumes "distinct (map filename files)"
  shows "set files \<subseteq> set (merge_files existing files)"
proof
  fix f assume f: "f \<in> set files"
  have "distinct (map fst (rev (keyed files)))"
    using assms by (simp add: rev_map [symmetric] map_fst_keyed)
  moreover have "(filename f, f) \<in> set (rev (keyed files))" using f by (auto simp: keyed_def)
  ultimately have "map_of (rev (keyed files)) (filename f) = Some f" by (rule map_of_is_SomeI)
  then have "map_of (rev (keyed (existing @ files))) (filename f) = Some f"
    by (simp add: keyed_append)
  then have "map_of (keyed (merge_files existing files)) (filename f) = Some f"
    by (simp add: merge_files_map_of)
  then have "(filename f, f) \<in> set (keyed (merge_files existing files))" by (rule map_of_SomeD)
  then show "f \<in> set (merge_files existing files)" by (auto simp: keyed_def)
qed


lemmas example_defs = idle_def two_chunks_def chunks_then_end_def turn_then_end_def example_env_def garbled_env_def failing_env_def garbled_msg_def unformatted_env_def example_start_def
  rejected_start_def denied_start_def connected_def chunk_msg_def turn_msg_def cat_call_def
  dog_call_def video_call_def tools_and_chunk_def with_files_def
  index_old_def index_new_def style_css_def app_js_def

lemmas callback_defs = init_def startSession_def onopen_def onmessage_def play_audio_def
  set_add_def source_ended_def tool_call_def generateImageFromVoice_def run_def Let_def

lemma connected_eval:
  "connected = \<lparr> isConnected = True, isSpeaking = False, status = Connected,
     liveImage = None, isProcessingTool = False, toolStatus = [],
     sessionRef = Some 4, audioContextRef = Some 1, inputContextRef = Some 2,
     streamRef = Some 3, processorRef = Some 6, sourceRef = Some 5,
     nextStartTimeRef = 0, scheduledSources = [], animRef = 0,
     stored_files = None, stored_chat = None, fresh_node = 0, effects = [] \<rparr>"
  by (simp add: example_defs callback_defs)

lemma playing_eval:
  "playing =
     connected\<lparr> isSpeaking := True, nextStartTimeRef := 1, scheduledSources := [0, 1],
       fresh_node := 2,
       effects := [SourceStart 0 0 (1 / 2), SourceStart 1 (1 / 2) (1 / 2)] \<rparr>"
  by (simp add: playing_def connected_eval) (simp add: example_defs callback_defs)


section \<open>The claims\<close>








text \<open>
  Claim C4 (idempotent teardown). After \<open>n + 1\<close> calls of \<open>cleanup\<close> from any
  state the status is \<open>Disconnected\<close>, no handle is held, the state is the one after
  the first call (the log apart), and the releases of owned resources in the log are
  those of the state before, followed by one release for each handle that was held:
  the later calls release nothing. The releases of one teardown are pairwise
  different when the scheduled set has no duplicates. From a state that holds nothing
  \<open>cleanup\<close> releases nothing, and from a state at rest it changes nothing but the
  log, where it cancels the animation frame of the visualizer once more.
\<close>

theorem cleanup_idempotent:
  "status ((cleanup ^^ Suc n) s) = Disconnected
   \<and> holds_nothing ((cleanup ^^ Suc n) s)
   \<and> (cleanup ^^ Suc n) s = (cleanup s)\<lparr> effects := effects ((cleanup ^^ Suc n) s) \<rparr>
   \<and> filter owned (effects ((cleanup ^^ Suc n) s)) = filter owned (effects s) @ owned_releases s
   \<and> (distinct (scheduledSources s) \<longrightarrow> distinct (owned_releases s))
   \<and> (holds_nothing s \<longrightarrow> filter owned (effects (cleanup s)) = filter owned (effects s))
   \<and> (at_rest s \<longrightarrow> cleanup s = s\<lparr> effects := effects s @ animation_cancel s \<rparr>)"
proof (intro conjI impI)
  show "status ((cleanup ^^ Suc n) s) = Disconnected" by (simp add: cleanup_status)
  show "holds_nothing ((cleanup ^^ Suc n) s)" by (simp add: cleanup_holds_nothing)
  show "(cleanup ^^ Suc n) s = (cleanup s)\<lparr> effects := effects ((cleanup ^^ Suc n) s) \<rparr>"
    by (rule cleanup_funpow_state)
  show "filter owned (effects ((cleanup ^^ Suc n) s)) = filter owned (effects s) @ owned_releases s"
    by (rule cleanup_funpow_owned)
  show "distinct (owned_releases s)" if "distinct (scheduledSources s)"
    using that by (rule distinct_owned_releases)
  show "filter owned (effects (cleanup s)) = filter owned (effects s)" if "holds_nothing s"
    using that by (simp add: cleanup_owned_effects holds_nothing_releases)
  show "cleanup s = s\<lparr> effects := effects s @ animation_cancel s \<rparr>" if "at_rest s"
    using that by (rule cleanup_at_rest)
qed

theorem cleanup_idempotent_witness:
  "distinct (scheduledSources playing)
   \<and> distinct (owned_releases playing)
   \<and> owned_releases playing =
       [SessionClose 4, ProcessorDisconnect 6, SourceDisconnect 5, TracksStop 3,
        InputContextClose 2, OutputContextClose 1, SourceStop 0, SourceStop 1]
   \<and> filter owned (effects ((cleanup ^^ Suc 2) playing)) =
       filter owned (effects playing) @ owned_releases playing
   \<and> status ((cleanup ^^ Suc 2) playing) = Disconnected
   \<and> holds_nothing idle \<and> at_rest idle
   \<and> filter owned (effects (cleanup idle)) = filter owned (effects idle)
   \<and> cleanup idle =
       idle\<lparr> effects := effects idle @ animation_cancel idle \<rparr>"
proof -
  have d: "distinct (scheduledSources playing)" by (simp add: playing_eval)
  have o: "owned_releases playing =
       [SessionClose 4, ProcessorDisconnect 6, SourceDisconnect 5, TracksStop 3,
        InputContextClose 2, OutputContextClose 1, SourceStop 0, SourceStop 1]"
    by (simp add: playing_eval connected_eval owned_releases_def release_of_def)
  have r: "at_rest idle" by (simp add: at_rest_def holds_nothing_def idle_def init_def)
  then have n: "holds_nothing idle" by (simp add: at_rest_def)
  note a = cleanup_idempotent [where s = playing and n = 2]
  note b = cleanup_idempotent [where s = "idle" and n = 0]
  note a1 = a [THEN conjunct1]
  note a4 = a [THEN conjunct2, THEN conjunct2, THEN conjunct2, THEN conjunct1]
  note a5 = a [THEN conjunct2, THEN conjunct2, THEN conjunct2, THEN conjunct2, THEN conjunct1,
      rule_format, OF d]
  note b6 = b [THEN conjunct2, THEN conjunct2, THEN conjunct2, THEN conjunct2, THEN conjunct2,
      THEN conjunct1, rule_format, OF n]
  note b7 = b [THEN conjunct2, THEN conjunct2, THEN conjunct2, THEN conjunct2, THEN conjunct2,
      THEN conjunct2, rule_format, OF r]
  show ?thesis
    by (intro conjI d a5 o a4 a1 n r b6 b7)
qed




text \<open>
  Claim C6 (unknown tool). A call whose name is neither \<open>generate_image\<close> nor
  \<open>generate_code\<close> changes nothing but the log, where it adds the response
  \<open>Tool execution failed\<close> with the name and id of the call, and a message with
  only that call returns.
\<close>

theorem unknown_tool_fails_softly:
  fixes e :: "('t::{linorder,plus}) env"
  assumes "name fc \<noteq> ''generate_image''" and "name fc \<noteq> ''generate_code''"
  shows "tool_call e fc s =
           s\<lparr> effects := effects s @ [SendToolResponse (name fc) (fc_id fc) ''Tool execution failed''] \<rparr>
     \<and> onmessage e t \<lparr> toolCall = Some [fc], audioData = None, turnComplete = False \<rparr> s =
           (Returned, s\<lparr> effects := effects s @ [SendToolResponse (name fc) (fc_id fc) ''Tool execution failed''] \<rparr>)"
  using assms by (simp add: tool_call_def onmessage_def)

theorem unknown_tool_fails_softly_witness:
  "name video_call \<noteq> ''generate_image'' \<and> name video_call \<noteq> ''generate_code''
   \<and> onmessage example_env 0 \<lparr> toolCall = Some [video_call], audioData = None, turnComplete = False \<rparr> connected =
       (Returned, connected\<lparr> effects := effects connected @
          [SendToolResponse ''generate_video'' ''x9'' ''Tool execution failed''] \<rparr>)"
proof -
  have h1: "name video_call \<noteq> ''generate_image''" by (simp add: video_call_def)
  have h2: "name video_call \<noteq> ''generate_code''" by (simp add: video_call_def)
  have n: "name video_call = ''generate_video''" "fc_id video_call = ''x9''"
    by (simp_all add: video_call_def)
  show ?thesis
    using h1 h2 unknown_tool_fails_softly [where e = example_env and t = 0 and s = connected, OF h1 h2]
    by (simp only: n simp_thms)
qed

text \<open>
  Claim C7 (decode failure), as the code does it. When the decoder throws on the
  chunk of a message, the handler throws: its result is the state after the tool calls
  of the message, with \<open>isSpeaking\<close> set and the cursor moved up to the clock value,
  and the turn-complete flag of the message is not looked at. Nothing is scheduled:
  the scheduled set, the playback starts of the log, the status and the handles are
  as before. A later message with a decodable chunk returns and is scheduled at the
  later of the cursor and the clock values.
\<close>

theorem decode_failure_drops_chunk:
  fixes e :: "('t::{linorder,plus}) env"
  assumes "chunk msg s = Some data" and "decode e data = None"
  shows "onmessage e t msg s =
           (Threw, (after_tools e msg s)\<lparr> isSpeaking := True,
              nextStartTimeRef := max (nextStartTimeRef s) t \<rparr>)
     \<and> scheduledSources (snd (onmessage e t msg s)) = scheduledSources s
     \<and> starts (effects (snd (onmessage e t msg s))) = starts (effects s)
     \<and> status (snd (onmessage e t msg s)) = status s
     \<and> audioContextRef (snd (onmessage e t msg s)) = audioContextRef s
     \<and> sessionRef (snd (onmessage e t msg s)) = sessionRef s
     \<and> (chunk msg' s = Some data' \<and> decode e data' = Some d' \<longrightarrow>
          fst (onmessage e t' msg' (snd (onmessage e t msg s))) = Returned \<and>
          starts (effects (snd (onmessage e t' msg' (snd (onmessage e t msg s))))) =
            starts (effects s) @ [(max (max (nextStartTimeRef s) t) t', d')])"
proof -
  let ?s' = "snd (onmessage e t msg s)"
  have eq: "onmessage e t msg s =
           (Threw, (after_tools e msg s)\<lparr> isSpeaking := True,
              nextStartTimeRef := max (nextStartTimeRef s) t \<rparr>)"
    using assms by (rule onmessage_decode_fails)
  have st: "starts (effects ?s') = starts (effects s)"
    using assms by (simp add: onmessage_starts)
  have ctx: "audioContextRef ?s' = audioContextRef s" by (simp add: eq after_tools_same)
  have cur: "nextStartTimeRef ?s' = max (nextStartTimeRef s) t" by (simp add: eq)
  have later: "fst (onmessage e t' msg' ?s') = Returned \<and>
          starts (effects (snd (onmessage e t' msg' ?s'))) =
            starts (effects s) @ [(max (max (nextStartTimeRef s) t) t', d')]"
    if "chunk msg' s = Some data'" "decode e data' = Some d'"
  proof -
    have c: "chunk msg' ?s' = Some data'" using that(1) chunk_same_context [OF ctx] by simp
    show ?thesis
      using c that(2) st cur by (simp add: onmessage_starts) (simp add: onmessage_scheduled)
  qed
  show ?thesis
    using eq st ctx later by (simp add: after_tools_same)
qed

theorem decode_failure_drops_chunk_witness:
  "chunk garbled_msg connected = Some ''!!'' \<and> decode garbled_env ''!!'' = None
   \<and> chunk chunk_msg connected = Some ''AAAA'' \<and> decode garbled_env ''AAAA'' = Some (1 / 2)
   \<and> fst (onmessage garbled_env 0 garbled_msg connected) = Threw
   \<and> scheduledSources (snd (onmessage garbled_env 0 garbled_msg connected)) = scheduledSources connected
   \<and> fst (onmessage garbled_env 1 chunk_msg (snd (onmessage garbled_env 0 garbled_msg connected))) = Returned
   \<and> starts (effects (snd (onmessage garbled_env 1 chunk_msg (snd (onmessage garbled_env 0 garbled_msg connected))))) =
       starts (effects connected) @ [(max (max (nextStartTimeRef connected) 0) 1, 1 / 2)]"
proof -
  have h1: "chunk garbled_msg connected = Some ''!!''"
    by (simp add: chunk_def garbled_msg_def connected_eval)
  have h2: "decode garbled_env ''!!'' = None"
    by (simp add: garbled_env_def)
  have h3: "chunk chunk_msg connected = Some ''AAAA'' \<and> decode garbled_env ''AAAA'' = Some (1 / 2)"
    by (simp add: chunk_def chunk_msg_def connected_eval garbled_env_def)
  note r = decode_failure_drops_chunk [where t = 0 and t' = 1 and msg' = chunk_msg
      and data' = "''AAAA''" and d' = "1 / 2", OF h1 h2]
  have r1: "fst (onmessage garbled_env 0 garbled_msg connected) = Threw"
    using r [THEN conjunct1] by simp
  note r2 = r [THEN conjunct2, THEN conjunct1]
  note r7 = r [THEN conjunct2, THEN conjunct2, THEN conjunct2, THEN conjunct2, THEN conjunct2,
      THEN conjunct2, rule_format, OF h3]
  show ?thesis
    by (intro conjI h1 h2 h3 [THEN conjunct1] h3 [THEN conjunct2] r1 r2
        r7 [THEN conjunct1] r7 [THEN conjunct2])
qed

text \<open>
  A chunk that does not decode: the handler throws, and leaves the signal set over an
  empty scheduled set.
\<close>

theorem decode_failure_escapes_counterexample:
  "fst (onmessage garbled_env 0 garbled_msg connected) = Threw
   \<and> isSpeaking (snd (onmessage garbled_env 0 garbled_msg connected))
   \<and> scheduledSources (snd (onmessage garbled_env 0 garbled_msg connected)) = []"
  by (simp add: connected_eval) (simp add: example_defs callback_defs)

text \<open>
  Claim C8 (forced teardown), as the code does it. \<open>onclose\<close> ends in
  \<open>Disconnected\<close> and \<open>onerror\<close> in \<open>Error\<close>, both holding no handle and with
  one release for each handle that was held. When \<open>getUserMedia\<close> rejects or the
  connect call throws, \<open>startSession\<close> ends in \<open>Error\<close>, holds no handle and has
  released what it had acquired. When the connect call returns its promise,
  \<open>startSession\<close> returns in \<open>Connecting\<close> with everything acquired and the
  promise stored, whatever becomes of the promise.
\<close>

theorem forced_teardown:
  "status (onclose s) = Disconnected \<and> holds_nothing (onclose s)
   \<and> filter owned (effects (onclose s)) = filter owned (effects s) @ owned_releases s
   \<and> status (onerror s) = Error \<and> holds_nothing (onerror s)
   \<and> filter owned (effects (onerror s)) = filter owned (effects s) @ owned_releases s
   \<and> (getUserMedia a = None \<or> connect a = ConnectThrows \<longrightarrow>
        status (startSession a s) = Error \<and> holds_nothing (startSession a s) \<and>
        filter owned (effects (startSession a s)) =
          filter owned (effects s) @ owned_releases (acquired a s))
   \<and> (getUserMedia a = Some stream \<and> connect a = ConnectPromise p fate \<longrightarrow>
        startSession a s = (acquired a s)\<lparr> sessionRef := Some p \<rparr>)"
proof (intro conjI impI)
  show "status (onclose s) = Disconnected" by (simp add: onclose_def cleanup_status)
  show "holds_nothing (onclose s)" by (simp add: onclose_def cleanup_holds_nothing)
  show "filter owned (effects (onclose s)) = filter owned (effects s) @ owned_releases s"
    by (simp add: onclose_def cleanup_owned_effects)
  show "status (onerror s) = Error" by (simp add: onerror_def)
  show "holds_nothing (onerror s)"
    using cleanup_holds_nothing [of s] by (simp add: onerror_def holds_nothing_def)
  show "filter owned (effects (onerror s)) = filter owned (effects s) @ owned_releases s"
    by (simp add: onerror_def cleanup_owned_effects)
next
  assume f: "getUserMedia a = None \<or> connect a = ConnectThrows"
  have eq: "startSession a s = (cleanup (acquired a s))\<lparr> status := Error \<rparr>"
    using f by (rule startSession_fails)
  show "status (startSession a s) = Error" by (simp add: eq)
  show "holds_nothing (startSession a s)"
    using cleanup_holds_nothing [of "acquired a s"] by (simp add: eq holds_nothing_def)
  show "filter owned (effects (startSession a s)) =
          filter owned (effects s) @ owned_releases (acquired a s)"
    by (simp add: eq cleanup_owned_effects acquired_effects)
next
  assume "getUserMedia a = Some stream \<and> connect a = ConnectPromise p fate"
  then show "startSession a s = (acquired a s)\<lparr> sessionRef := Some p \<rparr>"
    by (simp add: startSession_def acquired_def Let_def)
qed

theorem forced_teardown_witness:
  "(getUserMedia denied_start = None \<or> connect denied_start = ConnectThrows)
   \<and> status (startSession denied_start playing) = Error
   \<and> holds_nothing (startSession denied_start playing)
   \<and> getUserMedia example_start = Some 3 \<and> connect example_start = ConnectPromise 4 Fulfils
   \<and> startSession example_start idle = (acquired example_start idle)\<lparr> sessionRef := Some 4 \<rparr>
   \<and> status (onclose playing) = Disconnected \<and> status (onerror playing) = Error
   \<and> filter owned (effects (onerror playing)) = filter owned (effects playing) @ owned_releases playing"
proof -
  have h1: "getUserMedia denied_start = None \<or> connect denied_start = ConnectThrows"
    by (simp add: denied_start_def)
  have h2: "getUserMedia example_start = Some 3 \<and> connect example_start = ConnectPromise 4 Fulfils"
    by (simp add: example_start_def)
  note a = forced_teardown [where s = playing and a = denied_start]
  note b = forced_teardown [where s = "idle" and a = example_start and stream = 3 and p = 4
      and fate = Fulfils]
  note a7 = a [THEN conjunct2, THEN conjunct2, THEN conjunct2, THEN conjunct2, THEN conjunct2,
      THEN conjunct2, THEN conjunct1, rule_format, OF h1]
  note b8 = b [THEN conjunct2, THEN conjunct2, THEN conjunct2, THEN conjunct2, THEN conjunct2,
      THEN conjunct2, THEN conjunct2, rule_format, OF h2]
  note a1 = a [THEN conjunct1]
  note a4 = a [THEN conjunct2, THEN conjunct2, THEN conjunct2, THEN conjunct1]
  note a6 = a [THEN conjunct2, THEN conjunct2, THEN conjunct2, THEN conjunct2, THEN conjunct2,
      THEN conjunct1]
  show ?thesis
    by (intro conjI h1 a7 [THEN conjunct1] a7 [THEN conjunct2, THEN conjunct1]
        h2 [THEN conjunct1] h2 [THEN conjunct2] b8 a1 a4 a6)
qed

text \<open>
  A connect promise that rejects: \<open>startSession\<close> has returned in \<open>Connecting\<close>,
  holds the stream and the contexts, and has released nothing.
\<close>

theorem start_ignores_rejection_counterexample:
  "status (startSession rejected_start idle) = Connecting
   \<and> streamRef (startSession rejected_start idle) = Some 3
   \<and> audioContextRef (startSession rejected_start idle) = Some 1
   \<and> effects (startSession rejected_start idle) = []"
  by (simp add: rejected_start_def example_start_def startSession_def idle_def init_def Let_def)

text \<open>
  Claim C9 (merge by filename). When the code model answers with a parsable text that
  has a files array, the stored files become the merge of the stored files with the new
  ones: filenames are pairwise different in it, the file stored under a name is the
  last one of that name in the stored files followed by the new files, and new files
  with pairwise different names are all stored as they came. The stored chat gains
  one user entry with the description and one model entry with the explanation (or
  the default text), and the result text reports success.
\<close>

theorem code_files_merged:
  assumes "code_api e (code_prompt description (loadFromHistory (stored_files s) [])) = CodeText (Some jsonStr)"
    and "jsonStr \<noteq> []" and "json_parse e jsonStr = Json (Some files) explanation"
  shows "stored_files (snd (generateCodeFromVoice e description s)) =
           Some (merge_files (loadFromHistory (stored_files s) []) files)
     \<and> distinct (map filename (merge_files (loadFromHistory (stored_files s) []) files))
     \<and> map_of (keyed (merge_files (loadFromHistory (stored_files s) []) files)) =
         map_of (rev (keyed (loadFromHistory (stored_files s) [] @ files)))
     \<and> (distinct (map filename files) \<longrightarrow>
          set files \<subseteq> set (merge_files (loadFromHistory (stored_files s) []) files))
     \<and> stored_chat (snd (generateCodeFromVoice e description s)) =
         Some (loadFromHistory (stored_chat s) [] @
           [\<lparr> role = ''user'', entry_text = description \<rparr>,
            \<lparr> role = ''model'', entry_text =
                 (if explanation = None \<or> explanation = Some []
                  then ''Code generated via Voice Mode.'' else the explanation) \<rparr>])
     \<and> fst (generateCodeFromVoice e description s) =
         ''Code generated successfully for '' @ [CHR 0x22] @ description @ [CHR 0x22] @
         ''. Files saved to Code Studio.''"
proof (intro conjI impI)
  show "stored_files (snd (generateCodeFromVoice e description s)) =
           Some (merge_files (loadFromHistory (stored_files s) []) files)"
    using assms by (simp add: generateCodeFromVoice_def Let_def)
  show "distinct (map filename (merge_files (loadFromHistory (stored_files s) []) files))"
    by (rule merge_files_distinct)
  show "map_of (keyed (merge_files (loadFromHistory (stored_files s) []) files)) =
         map_of (rev (keyed (loadFromHistory (stored_files s) [] @ files)))"
    by (rule merge_files_map_of)
  show "set files \<subseteq> set (merge_files (loadFromHistory (stored_files s) []) files)"
    if "distinct (map filename files)" using that by (rule merge_files_keeps_new)
  show "stored_chat (snd (generateCodeFromVoice e description s)) =
         Some (loadFromHistory (stored_chat s) [] @
           [\<lparr> role = ''user'', entry_text = description \<rparr>,
            \<lparr> role = ''model'', entry_text =
                 (if explanation = None \<or> explanation = Some []
                  then ''Code generated via Voice Mode.'' else the explanation) \<rparr>])"
    using assms by (simp add: generateCodeFromVoice_def Let_def)
  show "fst (generateCodeFromVoice e description s) =
         ''Code generated successfully for '' @ [CHR 0x22] @ description @ [CHR 0x22] @
         ''. Files saved to Code Studio.''"
    using assms by (simp add: generateCodeFromVoice_def Let_def)
qed

text \<open>
  A new \<open>index.html\<close> replaces the stored one in place, \<open>style.css\<close> stays, and
  \<open>app.js\<close> goes last.
\<close>

theorem code_files_merged_witness:
  "code_api example_env (code_prompt ''a page'' (loadFromHistory (stored_files with_files) [])) = CodeText (Some ''{}'')
   \<and> ''{}'' \<noteq> [] \<and> json_parse example_env ''{}'' = Json (Some [index_new, app_js]) None
   \<and> distinct (map filename [index_new, app_js])
   \<and> merge_files (loadFromHistory (stored_files with_files) []) [index_new, app_js] =
       [index_new, style_css, app_js]
   \<and> stored_files (snd (generateCodeFromVoice example_env ''a page'' with_files)) =
       Some (merge_files (loadFromHistory (stored_files with_files) []) [index_new, app_js])
   \<and> set [index_new, app_js] \<subseteq> set (merge_files (loadFromHistory (stored_files with_files) []) [index_new, app_js])
   \<and> stored_chat (snd (generateCodeFromVoice example_env ''a page'' with_files)) =
       Some [\<lparr> role = ''user'', entry_text = ''a page'' \<rparr>,
             \<lparr> role = ''model'', entry_text = ''Code generated via Voice Mode.'' \<rparr>]"
proof -
  have h1: "code_api example_env (code_prompt ''a page'' (loadFromHistory (stored_files with_files) [])) = CodeText (Some ''{}'')"
    by (simp add: example_env_def)
  have h2: "''{}'' \<noteq> []" by simp
  have h3: "json_parse example_env ''{}'' = Json (Some [index_new, app_js]) None"
    by (simp add: example_env_def)
  have h4: "distinct (map filename [index_new, app_js])"
    by (simp add: index_new_def app_js_def)
  have m: "merge_files (loadFromHistory (stored_files with_files) []) [index_new, app_js] =
       [index_new, style_css, app_js]"
    by (simp add: with_files_def idle_def init_def loadFromHistory_def merge_files_def map_set_all_def
        index_new_def index_old_def style_css_def app_js_def)
  have c: "loadFromHistory (stored_chat with_files) [] = []"
    by (simp add: with_files_def idle_def init_def loadFromHistory_def)
  note r = code_files_merged [OF h1 h2 h3]
  note r1 = r [THEN conjunct1]
  note r4 = r [THEN conjunct2, THEN conjunct2, THEN conjunct2, THEN conjunct1, rule_format, OF h4]
  have r5: "stored_chat (snd (generateCodeFromVoice example_env ''a page'' with_files)) =
       Some [\<lparr> role = ''user'', entry_text = ''a page'' \<rparr>,
             \<lparr> role = ''model'', entry_text = ''Code generated via Voice Mode.'' \<rparr>]"
    using r c by simp
  show ?thesis
    by (intro conjI h1 h2 h3 h4 m r1 r4 r5)
qed



end
